theory Spec2Isabelle
  imports Complex_Main
begin

section \<open>Python values, dictionaries and exceptions\<close>

text \<open>
  The metric dictionaries of \<^verbatim>\<open>improved_server.py\<close> map metric names to floats, and
  \<^verbatim>\<open>facial_metrics\<close> also holds the string-valued \<^verbatim>\<open>emotion\<close>. A value is therefore a
  number or a string. Python floats are modelled by exact rationals: every sum and product
  below is the exact one, without the rounding error of IEEE doubles.
\<close>

datatype pyval = Num rat | Str string

datatype error = KeyError string | TypeError | ValueError string | DatabaseError

type_synonym metric_dict = "string \<rightharpoonup> pyval"

type_synonym metrics = "string \<rightharpoonup> metric_dict"

text \<open>\<^verbatim>\<open>d[k]\<close>: raises \<^verbatim>\<open>KeyError\<close> on a missing key.\<close>

definition getitem :: "(string \<rightharpoonup> 'a) \<Rightarrow> string \<Rightarrow> error + 'a" where
  "getitem d k = (case d k of None \<Rightarrow> Inl (KeyError k) | Some v \<Rightarrow> Inr v)"

text \<open>\<^verbatim>\<open>d.get(k, default)\<close>.\<close>

definition get_default :: "(string \<rightharpoonup> 'a) \<Rightarrow> string \<Rightarrow> 'a \<Rightarrow> 'a" where
  "get_default d k dflt = (case d k of None \<Rightarrow> dflt | Some v \<Rightarrow> v)"

text \<open>Sequencing of statements that may raise: the first exception ends the computation.\<close>

definition bind_err :: "error + 'a \<Rightarrow> ('a \<Rightarrow> error + 'b) \<Rightarrow> error + 'b" where
  "bind_err r f = (case r of Inl e \<Rightarrow> Inl e | Inr v \<Rightarrow> f v)"

text \<open>
  Arithmetic and comparison of a dictionary value with a number. A string operand raises
  \<^verbatim>\<open>TypeError\<close> (\<^verbatim>\<open>'a' * 0.3\<close>, \<^verbatim>\<open>'a' + 20\<close>, \<^verbatim>\<open>'a' < 70\<close>, \<^verbatim>\<open>min(100, 'a')\<close>).
\<close>

fun as_number :: "pyval \<Rightarrow> error + rat" where
  "as_number (Num x) = Inr x"
| "as_number (Str s) = Inl TypeError"

definition py_mul :: "pyval \<Rightarrow> rat \<Rightarrow> error + rat" where
  "py_mul v c = bind_err (as_number v) (\<lambda>x. Inr (x * c))"

definition py_add :: "pyval \<Rightarrow> rat \<Rightarrow> error + rat" where
  "py_add v c = bind_err (as_number v) (\<lambda>x. Inr (x + c))"

definition py_lt :: "pyval \<Rightarrow> rat \<Rightarrow> error + bool" where
  "py_lt v c = bind_err (as_number v) (\<lambda>x. Inr (x < c))"

text \<open>
  \<^verbatim>\<open>round(x, 1)\<close>: the multiple of one tenth nearest to \<open>x\<close>, a tie going to the even
  multiple (Python rounds the exact value of the float, half to even).
\<close>

definition round_half_even :: "rat \<Rightarrow> int" where
  "round_half_even y =
     (let f = \<lfloor>y\<rfloor>; d = y - of_int f
      in if d < 1 / 2 then f
         else if 1 / 2 < d then f + 1
         else if even f then f else f + 1)"

definition py_round1 :: "rat \<Rightarrow> rat" where
  "py_round1 x = of_int (round_half_even (x * 10)) / 10"

section \<open>AIAnalysisEngine: scoring\<close>

text \<open>One summand \<^verbatim>\<open>metrics[g][k] * w\<close> of \<^verbatim>\<open>_calculate_overall_score\<close>.\<close>

definition weighted :: "metrics \<Rightarrow> string \<Rightarrow> string \<Rightarrow> rat \<Rightarrow> error + rat" where
  "weighted m g k w =
     bind_err (getitem m g) (\<lambda>d. bind_err (getitem d k) (\<lambda>v. py_mul v w))"

definition voice_score :: "metrics \<Rightarrow> error + rat" where
  "voice_score m =
     bind_err (weighted m ''voice_metrics'' ''confidence'' 0.3) (\<lambda>a.
     bind_err (weighted m ''voice_metrics'' ''audibility'' 0.4) (\<lambda>b.
     bind_err (weighted m ''voice_metrics'' ''clarity'' 0.3) (\<lambda>c.
     Inr (a + b + c))))"

definition facial_score :: "metrics \<Rightarrow> error + rat" where
  "facial_score m =
     bind_err (weighted m ''facial_metrics'' ''engagement_level'' 0.6) (\<lambda>a.
     bind_err (weighted m ''facial_metrics'' ''expression_variety'' 0.4) (\<lambda>b.
     Inr (a + b)))"

definition teaching_score :: "metrics \<Rightarrow> error + rat" where
  "teaching_score m =
     bind_err (weighted m ''teaching_metrics'' ''interaction_level'' 0.4) (\<lambda>a.
     bind_err (weighted m ''teaching_metrics'' ''example_usage'' 0.3) (\<lambda>b.
     bind_err (weighted m ''teaching_metrics'' ''student_engagement'' 0.3) (\<lambda>c.
     Inr (a + b + c))))"

definition calculate_overall_score :: "metrics \<Rightarrow> error + rat" where
  "calculate_overall_score m =
     bind_err (voice_score m) (\<lambda>v.
     bind_err (facial_score m) (\<lambda>f.
     bind_err (teaching_score m) (\<lambda>t.
     Inr (py_round1 (v * 0.4 + f * 0.3 + t * 0.3)))))"

definition determine_eligibility :: "rat \<Rightarrow> string" where
  "determine_eligibility score =
     (if score \<ge> 85 then ''eligible''
      else if score \<ge> 70 then ''needs-improvement''
      else ''not-eligible'')"

text \<open>The snapshot of the specification's end-to-end scenario.\<close>

definition sample_voice :: metric_dict where
  "sample_voice = [''confidence'' \<mapsto> Num 60, ''audibility'' \<mapsto> Num 70,
                   ''clarity'' \<mapsto> Num 65, ''volume'' \<mapsto> Num 60]"

definition sample_facial :: metric_dict where
  "sample_facial = [''engagement_level'' \<mapsto> Num 60, ''expression_variety'' \<mapsto> Num 60,
                    ''emotion'' \<mapsto> Str ''neutral'']"

definition sample_teaching :: metric_dict where
  "sample_teaching = [''interaction_level'' \<mapsto> Num 60, ''example_usage'' \<mapsto> Num 85,
                      ''student_engagement'' \<mapsto> Num 75]"

definition sample_snapshot :: metrics where
  "sample_snapshot = [''voice_metrics'' \<mapsto> sample_voice, ''facial_metrics'' \<mapsto> sample_facial,
                      ''teaching_metrics'' \<mapsto> sample_teaching]"

text \<open>The scoring step of \<^verbatim>\<open>generate_final_report\<close>: the score, then its tier.\<close>

definition score_and_tier :: "metrics \<Rightarrow> error + rat \<times> string" where
  "score_and_tier m =
     bind_err (calculate_overall_score m) (\<lambda>overall_score.
     Inr (overall_score, determine_eligibility overall_score))"

section \<open>AIAnalysisEngine: teaching metrics, fallback and aggregation\<close>

definition calculate_teaching_metrics :: "metric_dict \<Rightarrow> metric_dict \<Rightarrow> error + metric_dict" where
  "calculate_teaching_metrics voice_metrics facial_metrics =
     bind_err (as_number (get_default voice_metrics ''confidence'' (Num 50))) (\<lambda>c.
     bind_err (as_number (get_default facial_metrics ''engagement'' (Num 50))) (\<lambda>e.
     let interaction_score = min 100 ((c + e) / 2) in
     bind_err (py_add (get_default voice_metrics ''clarity'' (Num 50)) 20) (\<lambda>x.
     let example_usage = min 100 x in
     bind_err (py_add (get_default facial_metrics ''engagement'' (Num 50)) 15) (\<lambda>y.
     let student_engagement = min 100 y in
     Inr [''interaction_level'' \<mapsto> Num (py_round1 interaction_score),
          ''example_usage'' \<mapsto> Num (py_round1 example_usage),
          ''student_engagement'' \<mapsto> Num (py_round1 student_engagement)]))))"

text \<open>
  The dictionaries of \<^verbatim>\<open>_get_fallback_metrics\<close> and \<^verbatim>\<open>_aggregate_metrics\<close>. The
  \<^verbatim>\<open>timestamp\<close> entry of the former is a string beside the three dictionaries; no modelled
  function reads it, and it is left out.
\<close>

definition get_fallback_metrics :: metrics where
  "get_fallback_metrics =
     [''voice_metrics'' \<mapsto>
        [''confidence'' \<mapsto> Num 70, ''volume'' \<mapsto> Num 65, ''clarity'' \<mapsto> Num 75,
         ''audibility'' \<mapsto> Num 80],
      ''facial_metrics'' \<mapsto>
        [''emotion'' \<mapsto> Str ''neutral'', ''engagement_level'' \<mapsto> Num 70,
         ''expression_variety'' \<mapsto> Num 65],
      ''teaching_metrics'' \<mapsto>
        [''interaction_level'' \<mapsto> Num 70, ''example_usage'' \<mapsto> Num 75,
         ''student_engagement'' \<mapsto> Num 70]]"

text \<open>
  A row of the table \<^verbatim>\<open>assessment_data\<close>. The three JSON text columns are represented by
  the dictionaries they encode.
\<close>

record db_row =
  row_id :: nat
  row_assessment_id :: string
  row_voice_metrics :: metric_dict
  row_facial_metrics :: metric_dict
  row_teaching_metrics :: metric_dict

definition aggregate_metrics :: "db_row list \<Rightarrow> metrics" where
  "aggregate_metrics data_points =
     [''voice_metrics'' \<mapsto>
        [''confidence'' \<mapsto> Num 75, ''volume'' \<mapsto> Num 70, ''clarity'' \<mapsto> Num 80,
         ''audibility'' \<mapsto> Num 75],
      ''facial_metrics'' \<mapsto>
        [''emotion'' \<mapsto> Str ''confident'', ''engagement_level'' \<mapsto> Num 78,
         ''expression_variety'' \<mapsto> Num 72],
      ''teaching_metrics'' \<mapsto>
        [''interaction_level'' \<mapsto> Num 76, ''example_usage'' \<mapsto> Num 82,
         ''student_engagement'' \<mapsto> Num 74]]"

text \<open>
  \<^verbatim>\<open>DatabaseManager.save_assessment_data\<close> appends a row with the next autoincrement id;
  the query of \<^verbatim>\<open>generate_final_report\<close> selects the rows of one assessment.
\<close>

record assessment_data =
  data_assessment_id :: string
  data_voice_metrics :: metric_dict
  data_facial_metrics :: metric_dict
  data_teaching_metrics :: metric_dict

definition save_assessment_data :: "db_row list \<Rightarrow> assessment_data \<Rightarrow> db_row list" where
  "save_assessment_data table data =
     table @ [\<lparr>row_id = Suc (length table),
               row_assessment_id = data_assessment_id data,
               row_voice_metrics = data_voice_metrics data,
               row_facial_metrics = data_facial_metrics data,
               row_teaching_metrics = data_teaching_metrics data\<rparr>]"

definition select_assessment_data :: "db_row list \<Rightarrow> string \<Rightarrow> error + db_row list" where
  "select_assessment_data table assessment_id =
     Inr (filter (\<lambda>r. row_assessment_id r = assessment_id) table)"

text \<open>The sample of the specification's end-to-end scenario, as posted for session S1.\<close>

definition sample_data :: assessment_data where
  "sample_data =
     \<lparr>data_assessment_id = ''S1'', data_voice_metrics = sample_voice,
      data_facial_metrics = sample_facial, data_teaching_metrics = sample_teaching\<rparr>"

section \<open>RecommendationEngine\<close>

record recommendation =
  category :: string
  priority :: string
  title :: string
  description :: string

definition improve_voice_confidence :: recommendation where
  "improve_voice_confidence =
     \<lparr>category = ''voice'', priority = ''high'', title = ''Improve Voice Confidence'',
      description =
        ''Practice speaking exercises and breathing techniques to build confidence.''\<rparr>"

definition enhance_voice_projection :: recommendation where
  "enhance_voice_projection =
     \<lparr>category = ''voice'', priority = ''high'', title = ''Enhance Voice Projection'',
      description =
        ''Work on projecting your voice to ensure all students can hear clearly.''\<rparr>"

definition increase_facial_expressiveness :: recommendation where
  "increase_facial_expressiveness =
     \<lparr>category = ''engagement'', priority = ''medium'',
      title = ''Increase Facial Expressiveness'',
      description = ''Use more facial expressions and gestures to engage students.''\<rparr>"

definition increase_student_interaction :: recommendation where
  "increase_student_interaction =
     \<lparr>category = ''teaching'', priority = ''medium'', title = ''Increase Student Interaction'',
      description = ''Ask more questions and encourage student participation.''\<rparr>"

definition use_more_examples :: recommendation where
  "use_more_examples =
     \<lparr>category = ''teaching'', priority = ''low'', title = ''Use More Examples'',
      description = ''Include more real-world examples to illustrate concepts.''\<rparr>"

text \<open>\<^verbatim>\<open>if d.get(k, 100) < t: recommendations.append(r)\<close>, followed by the rest.\<close>

definition append_if_below ::
  "metric_dict \<Rightarrow> string \<Rightarrow> rat \<Rightarrow> recommendation \<Rightarrow> recommendation list \<Rightarrow>
   (recommendation list \<Rightarrow> error + recommendation list) \<Rightarrow> error + recommendation list" where
  "append_if_below d k t r recommendations rest =
     bind_err (py_lt (get_default d k (Num 100)) t) (\<lambda>below.
     rest (if below then recommendations @ [r] else recommendations))"

definition generate_recommendations :: "metrics \<Rightarrow> error + recommendation list" where
  "generate_recommendations m =
     (let recommendations = [];
          voice_metrics = get_default m ''voice_metrics'' Map.empty;
          facial_metrics = get_default m ''facial_metrics'' Map.empty;
          teaching_metrics = get_default m ''teaching_metrics'' Map.empty
      in
        append_if_below voice_metrics ''confidence'' 70 improve_voice_confidence
          recommendations (\<lambda>recommendations.
        append_if_below voice_metrics ''audibility'' 75 enhance_voice_projection
          recommendations (\<lambda>recommendations.
        append_if_below facial_metrics ''engagement_level'' 70 increase_facial_expressiveness
          recommendations (\<lambda>recommendations.
        append_if_below teaching_metrics ''interaction_level'' 80 increase_student_interaction
          recommendations (\<lambda>recommendations.
        append_if_below teaching_metrics ''example_usage'' 75 use_more_examples
          recommendations (\<lambda>recommendations.
        Inr recommendations))))))"

section \<open>AIAnalysisEngine: the final report\<close>

record assessment_result =
  assessment_id :: string
  overall_score :: rat
  eligibility :: string
  recommendations :: "recommendation list"
  detailed_analysis :: metrics

definition get_fallback_result :: "string \<Rightarrow> assessment_result" where
  "get_fallback_result aid =
     \<lparr>assessment_id = aid,
      overall_score = 75,
      eligibility = ''needs-improvement'',
      recommendations =
        [\<lparr>category = ''general'', priority = ''medium'', title = ''Continue Practice'',
          description = ''Keep practicing teaching techniques''\<rparr>],
      detailed_analysis = Map.empty\<rparr>"

text \<open>
  The body of the \<^verbatim>\<open>try\<close> block of \<^verbatim>\<open>generate_final_report\<close>. The database is a
  collaborator: \<open>fetch\<close> is the outcome of opening it and running the query, an exception
  of \<^verbatim>\<open>sqlite3\<close> or the rows found.
\<close>

definition final_report_body ::
  "(string \<Rightarrow> error + db_row list) \<Rightarrow> string \<Rightarrow> error + assessment_result" where
  "final_report_body fetch aid =
     bind_err (fetch aid) (\<lambda>data_points.
     case data_points of
       [] \<Rightarrow> Inl (ValueError ''No assessment data found'')
     | _ # _ \<Rightarrow>
         let aggregated_metrics = aggregate_metrics data_points in
         bind_err (calculate_overall_score aggregated_metrics) (\<lambda>score.
         let tier = determine_eligibility score in
         bind_err (generate_recommendations aggregated_metrics) (\<lambda>recs.
         Inr \<lparr>assessment_id = aid, overall_score = score, eligibility = tier,
              recommendations = recs, detailed_analysis = aggregated_metrics\<rparr>)))"

text \<open>\<^verbatim>\<open>except Exception\<close>: every exception of the body becomes the fallback result.\<close>

definition generate_final_report ::
  "(string \<Rightarrow> error + db_row list) \<Rightarrow> string \<Rightarrow> assessment_result" where
  "generate_final_report fetch aid =
     (case final_report_body fetch aid of
        Inl e \<Rightarrow> get_fallback_result aid
      | Inr result \<Rightarrow> result)"

section \<open>ConnectionManager\<close>

text \<open>
  A \<^verbatim>\<open>WebSocket\<close> object is identified by a number. The transport belongs to the web
  framework: its state \<open>'net\<close> and its two operations \<^verbatim>\<open>accept\<close> and \<^verbatim>\<open>send_text\<close>,
  each of which may raise, are parameters of the manager's methods.
\<close>

type_synonym websocket = nat

record connection_manager =
  active_connections :: "websocket list"
  assessment_connections :: "string \<rightharpoonup> websocket"

definition new_manager :: connection_manager where
  "new_manager = \<lparr>active_connections = [], assessment_connections = Map.empty\<rparr>"

text \<open>Truth value of the optional argument \<^verbatim>\<open>assessment_id: str = None\<close>.\<close>

fun truthy :: "string option \<Rightarrow> bool" where
  "truthy None = False"
| "truthy (Some s) = (s \<noteq> [])"


definition disconnect ::
  "websocket \<Rightarrow> string option \<Rightarrow> connection_manager \<Rightarrow> connection_manager" where
  "disconnect ws aid mgr =
     (let mgr1 = (if ws \<in> set (active_connections mgr)
                  then mgr\<lparr>active_connections := remove1 ws (active_connections mgr)\<rparr>
                  else mgr)
      in if truthy aid \<and> assessment_connections mgr1 (the aid) \<noteq> None
         then mgr1\<lparr>assessment_connections := (assessment_connections mgr1)(the aid := None)\<rparr>
         else mgr1)"

definition send_to_assessment ::
  "(websocket \<Rightarrow> string \<Rightarrow> 'net \<Rightarrow> error + 'net) \<Rightarrow> string \<Rightarrow> string \<Rightarrow>
   connection_manager \<times> 'net \<Rightarrow> error + connection_manager \<times> 'net" where
  "send_to_assessment send_text aid message st =
     (case st of (mgr, net) \<Rightarrow>
        (case assessment_connections mgr aid of
           None \<Rightarrow> Inr (mgr, net)
         | Some ws \<Rightarrow> bind_err (send_text ws message net) (\<lambda>net'. Inr (mgr, net'))))"


definition log_send_text ::
  "websocket \<Rightarrow> string \<Rightarrow> (websocket \<times> string) list \<Rightarrow> error + (websocket \<times> string) list" where
  "log_send_text ws message net = Inr (net @ [(ws, message)])"


section \<open>Notions of the specification\<close>

text \<open>The value a snapshot holds for a metric of one of its dictionaries, if any.\<close>

definition lookup2 :: "metrics \<Rightarrow> string \<Rightarrow> string \<Rightarrow> pyval option" where
  "lookup2 m g k = (case m g of None \<Rightarrow> None | Some d \<Rightarrow> d k)"

text \<open>
  A dictionary with numeric values: every entry is a number, the categorical
  \<^verbatim>\<open>emotion\<close> label apart. A numeric snapshot has only such dictionaries.
\<close>

definition numeric_metrics :: "metric_dict \<Rightarrow> bool" where
  "numeric_metrics d = (\<forall>k v. d k = Some v \<longrightarrow> k \<noteq> ''emotion'' \<longrightarrow> (\<exists>x. v = Num x))"

definition numeric_snapshot :: "metrics \<Rightarrow> bool" where
  "numeric_snapshot m = (\<forall>g d. m g = Some d \<longrightarrow> numeric_metrics d)"

text \<open>
  The rule table of the recommendation engine as the specification lists it: the metric
  read, its threshold, and the category, priority and title of the recommendation. A rule
  fires when the snapshot holds a number below the threshold for its metric.
\<close>

type_synonym rule = "(string \<times> string) \<times> rat \<times> (string \<times> string \<times> string)"

definition rule_table :: "rule list" where
  "rule_table =
     [((''voice_metrics'', ''confidence''), 70,
         (''voice'', ''high'', ''Improve Voice Confidence'')),
      ((''voice_metrics'', ''audibility''), 75,
         (''voice'', ''high'', ''Enhance Voice Projection'')),
      ((''facial_metrics'', ''engagement_level''), 70,
         (''engagement'', ''medium'', ''Increase Facial Expressiveness'')),
      ((''teaching_metrics'', ''interaction_level''), 80,
         (''teaching'', ''medium'', ''Increase Student Interaction'')),
      ((''teaching_metrics'', ''example_usage''), 75,
         (''teaching'', ''low'', ''Use More Examples''))]"

fun rule_fires :: "metrics \<Rightarrow> rule \<Rightarrow> bool" where
  "rule_fires m ((g, k), t, h) =
     (case lookup2 m g k of Some (Num v) \<Rightarrow> v < t | _ \<Rightarrow> False)"

text \<open>The dictionary holds a number below \<open>t\<close> under the key.\<close>

definition below :: "metric_dict \<Rightarrow> string \<Rightarrow> rat \<Rightarrow> bool" where
  "below d k t = (case d k of Some (Num v) \<Rightarrow> v < t | _ \<Rightarrow> False)"

definition headline :: "recommendation \<Rightarrow> string \<times> string \<times> string" where
  "headline r = (category r, priority r, title r)"

text \<open>
  The eight metrics read by the scoring formula, each with the dictionary that holds it,
  in the order in which \<^verbatim>\<open>_calculate_overall_score\<close> reads them. Two snapshots agree on
  them when, for each, the dictionary is present in both or in neither and the metric has
  the same value (or is missing) in both.
\<close>

definition scored_keys :: "(string \<times> string) list" where
  "scored_keys =
     [(''voice_metrics'', ''confidence''), (''voice_metrics'', ''audibility''),
      (''voice_metrics'', ''clarity''),
      (''facial_metrics'', ''engagement_level''), (''facial_metrics'', ''expression_variety''),
      (''teaching_metrics'', ''interaction_level''), (''teaching_metrics'', ''example_usage''),
      (''teaching_metrics'', ''student_engagement'')]"

definition agree_on_scored :: "metrics \<Rightarrow> metrics \<Rightarrow> bool" where
  "agree_on_scored m1 m2 =
     (\<forall>(g, k) \<in> set scored_keys.
        (m1 g = None \<longleftrightarrow> m2 g = None) \<and> lookup2 m1 g k = lookup2 m2 g k)"


definition number_or :: "metric_dict \<Rightarrow> string \<Rightarrow> rat \<Rightarrow> rat" where
  "number_or d k dflt = (case d k of Some (Num x) \<Rightarrow> x | _ \<Rightarrow> dflt)"


section \<open>Properties\<close>

lemma bind_err_Inr [simp]: "bind_err (Inr v) f = f v"
  by (simp add: bind_err_def)

lemma bind_err_Inl [simp]: "bind_err (Inl e) f = Inl e"
  by (simp add: bind_err_def)




subsection \<open>Rounding to one decimal place\<close>

lemma round_half_even_bounds: "\<bar>of_int (round_half_even y) - y\<bar> \<le> 1 / 2"
  unfolding round_half_even_def Let_def
  by (auto simp: abs_if; linarith)

lemma py_round1_near: "\<bar>py_round1 x - x\<bar> \<le> 1 / 20"
  using round_half_even_bounds [of "x * 10"]
  by (simp add: py_round1_def abs_if field_simps split: if_splits)

lemma round_half_even_of_int [simp]: "round_half_even (of_int n) = n"
  by (simp add: round_half_even_def)

lemma py_round1_tenths: "py_round1 (of_int n / 10) = of_int n / 10"
  by (simp add: py_round1_def)

lemma round_half_even_le_int: "y \<le> of_int n \<Longrightarrow> round_half_even y \<le> n"
  unfolding round_half_even_def Let_def
  by (auto; linarith)

lemma py_round1_le_100: "x \<le> 100 \<Longrightarrow> py_round1 x \<le> 100"
  using round_half_even_le_int [of "x * 10" 1000] by (simp add: py_round1_def)

subsection \<open>Eligibility\<close>

text \<open>
  C3. A score of at least 85 is eligible, a score from 70 up to but excluding 85 needs
  improvement, a score below 70 is not eligible; the lower bound of each tier belongs to
  it: 85.0 is eligible, 84.9 needs improvement, 69.9 is not eligible.
\<close>

theorem eligibility_tiers:
  "(85 \<le> s \<longrightarrow> determine_eligibility s = ''eligible'')
   \<and> (70 \<le> s \<and> s < 85 \<longrightarrow> determine_eligibility s = ''needs-improvement'')
   \<and> (s < 70 \<longrightarrow> determine_eligibility s = ''not-eligible'')
   \<and> determine_eligibility 85.0 = ''eligible''
   \<and> determine_eligibility 84.9 = ''needs-improvement''
   \<and> determine_eligibility 69.9 = ''not-eligible''"
  by (simp add: determine_eligibility_def)

theorem eligibility_tiers_witness:
  "determine_eligibility 92.5 = ''eligible''
   \<and> determine_eligibility 70 = ''needs-improvement''
   \<and> determine_eligibility 12 = ''not-eligible''"
  using eligibility_tiers [of "92.5"] eligibility_tiers [of 70] eligibility_tiers [of 12]
  by simp

subsection \<open>Recommendations\<close>

lemma py_lt_get_default:
  assumes "numeric_metrics d" and "k \<noteq> ''emotion''" and "t \<le> 100"
  shows "py_lt (get_default d k (Num 100)) t = Inr (below d k t)"
proof (cases "d k")
  case None
  with assms(3) show ?thesis by (simp add: py_lt_def get_default_def below_def)
next
  case (Some v)
  with assms obtain x where "v = Num x" unfolding numeric_metrics_def by blast
  with Some show ?thesis by (simp add: py_lt_def get_default_def below_def)
qed

lemma numeric_get_default:
  "numeric_snapshot m \<Longrightarrow> numeric_metrics (get_default m g Map.empty)"
  by (auto simp: numeric_snapshot_def numeric_metrics_def get_default_def split: option.splits)

lemma rule_fires_below:
  "rule_fires m ((g, k), t, h) = below (get_default m g Map.empty) k t"
  by (simp add: lookup2_def below_def get_default_def split: option.splits)

lemma append_if_below_numeric:
  assumes "numeric_metrics d" and "k \<noteq> ''emotion''" and "t \<le> 100"
  shows "append_if_below d k t r recs rest = rest (if below d k t then recs @ [r] else recs)"
  using assms by (simp add: append_if_below_def py_lt_get_default)

lemma generate_recommendations_numeric:
  assumes "numeric_snapshot m"
  shows "generate_recommendations m =
    Inr ((if rule_fires m (rule_table ! 0) then [improve_voice_confidence] else [])
       @ (if rule_fires m (rule_table ! 1) then [enhance_voice_projection] else [])
       @ (if rule_fires m (rule_table ! 2) then [increase_facial_expressiveness] else [])
       @ (if rule_fires m (rule_table ! 3) then [increase_student_interaction] else [])
       @ (if rule_fires m (rule_table ! 4) then [use_more_examples] else []))"
  using numeric_get_default [OF assms]
  by (simp add: generate_recommendations_def Let_def append_if_below_numeric rule_table_def
      rule_fires_below del: rule_fires.simps)

lemma numeric_sample_snapshot: "numeric_snapshot sample_snapshot"
  by (auto simp: numeric_snapshot_def numeric_metrics_def sample_snapshot_def sample_voice_def
      sample_facial_def sample_teaching_def split: if_splits)

text \<open>
  C5. On a snapshot with numeric values the recommendation engine returns one
  recommendation for each rule of the table that fires, with that rule's category,
  priority and title, in the order of the table and with no other entry; when no rule
  fires, the result is the empty list.
\<close>

theorem recommendations_are_triggered_rules:
  assumes "numeric_snapshot m"
  shows "\<exists>recs. generate_recommendations m = Inr recs
           \<and> map headline recs = map (\<lambda>rule. snd (snd rule)) (filter (rule_fires m) rule_table)
           \<and> ((\<forall>rule \<in> set rule_table. \<not> rule_fires m rule) \<longrightarrow> recs = [])"
  unfolding generate_recommendations_numeric [OF assms]
  by (simp add: rule_table_def headline_def improve_voice_confidence_def
      enhance_voice_projection_def increase_facial_expressiveness_def
      increase_student_interaction_def use_more_examples_def del: rule_fires.simps)

theorem recommendations_are_triggered_rules_witness:
  "(\<exists>recs. generate_recommendations sample_snapshot = Inr recs
      \<and> map headline recs =
          [(''voice'', ''high'', ''Improve Voice Confidence''),
           (''voice'', ''high'', ''Enhance Voice Projection''),
           (''engagement'', ''medium'', ''Increase Facial Expressiveness''),
           (''teaching'', ''medium'', ''Increase Student Interaction'')])
   \<and> generate_recommendations Map.empty = Inr []"
proof -
  have "numeric_snapshot Map.empty"
    by (simp add: numeric_snapshot_def)
  from recommendations_are_triggered_rules [OF this]
  have e: "generate_recommendations Map.empty = Inr []"
    by (auto simp: rule_table_def lookup2_def)
  have "filter (rule_fires sample_snapshot) rule_table = take 4 rule_table"
    by (simp add: rule_table_def lookup2_def sample_snapshot_def sample_voice_def
      sample_facial_def sample_teaching_def)
  with recommendations_are_triggered_rules [OF numeric_sample_snapshot] e
  show ?thesis
    by (auto simp: rule_table_def)
qed

subsection \<open>Missing metrics\<close>

lemma bind_err_Inr_iff: "bind_err r f = Inr y \<longleftrightarrow> (\<exists>v. r = Inr v \<and> f v = Inr y)"
  by (cases r) simp_all

lemma bind_err_Inl_iff:
  "bind_err r f = Inl e \<longleftrightarrow> r = Inl e \<or> (\<exists>v. r = Inr v \<and> f v = Inl e)"
  by (cases r) simp_all

lemma weighted_cases:
  "weighted m g k w =
     (case m g of None \<Rightarrow> Inl (KeyError g)
      | Some d \<Rightarrow> (case d k of None \<Rightarrow> Inl (KeyError k)
          | Some (Str s) \<Rightarrow> Inl TypeError
          | Some (Num x) \<Rightarrow> Inr (x * w)))"
  by (simp add: weighted_def getitem_def py_mul_def split: option.splits pyval.splits)

lemma weighted_missing:
  "lookup2 m g k = None \<Longrightarrow>
     weighted m g k w = Inl (KeyError g) \<or> weighted m g k w = Inl (KeyError k)"
  by (simp add: weighted_cases lookup2_def split: option.splits)

lemma weighted_error:
  "weighted m g k w = Inl e \<Longrightarrow> e = TypeError \<or> (\<exists>key. e = KeyError key)"
  by (auto simp: weighted_cases split: option.splits pyval.splits)

lemma score_error_kind:
  assumes "calculate_overall_score m = Inl e"
  shows "e = TypeError \<or> (\<exists>key. e = KeyError key)"
  using assms
  unfolding calculate_overall_score_def voice_score_def facial_score_def teaching_score_def
  by (auto simp: bind_err_Inl_iff dest: weighted_error)

lemma score_Inr_weighted:
  assumes "calculate_overall_score m = Inr s" and "(g, k) \<in> set scored_keys"
  shows "\<exists>w y. weighted m g k w = Inr y"
  using assms
  unfolding calculate_overall_score_def voice_score_def facial_score_def teaching_score_def
    scored_keys_def
  by (auto simp: bind_err_Inr_iff)

text \<open>
  C6, as the claim states it, fails: on the scenario's snapshot with \<^verbatim>\<open>confidence\<close>
  removed the score is not computed from a default of 70, the lookup raises
  \<^verbatim>\<open>KeyError\<close>.
\<close>

theorem missing_key_counterexample:
  "calculate_overall_score
     (sample_snapshot(''voice_metrics'' \<mapsto> sample_voice(''confidence'' := None)))
   = Inl (KeyError ''confidence'')"
  by (simp add: calculate_overall_score_def voice_score_def weighted_cases sample_snapshot_def
      sample_voice_def)

text \<open>
  C6, amended. When a snapshot lacks one of the eight metrics of the formula (the key, or
  the dictionary that should hold it), computing the overall score raises: no score is
  returned and no default is substituted. The exception is a \<^verbatim>\<open>KeyError\<close>, or a
  \<^verbatim>\<open>TypeError\<close> when a string is read before the missing key.
\<close>

theorem missing_key_raises:
  assumes "(g, k) \<in> set scored_keys" and "lookup2 m g k = None"
  shows "\<exists>e. calculate_overall_score m = Inl e \<and> (e = TypeError \<or> (\<exists>key. e = KeyError key))"
proof (cases "calculate_overall_score m")
  case (Inl e)
  then show ?thesis using score_error_kind by blast
next
  case (Inr s)
  from score_Inr_weighted [OF this assms(1)] obtain w y where "weighted m g k w = Inr y"
    by blast
  with weighted_missing [OF assms(2), of w] show ?thesis by simp
qed

theorem missing_key_raises_witness:
  "\<exists>e. calculate_overall_score (sample_snapshot(''teaching_metrics'' := None)) = Inl e
        \<and> (e = TypeError \<or> (\<exists>key. e = KeyError key))"
  using missing_key_raises [of "''teaching_metrics''" "''example_usage''"
      "sample_snapshot(''teaching_metrics'' := None)"]
  by (simp add: scored_keys_def lookup2_def)

subsection \<open>Determinism of scoring\<close>

lemma weighted_agree:
  assumes "m1 g = None \<longleftrightarrow> m2 g = None" and "lookup2 m1 g k = lookup2 m2 g k"
  shows "weighted m1 g k w = weighted m2 g k w"
  using assms by (auto simp: weighted_cases lookup2_def split: option.splits)

lemma score_agree:
  assumes "agree_on_scored m1 m2"
  shows "calculate_overall_score m1 = calculate_overall_score m2"
proof -
  have w: "weighted m1 g k w = weighted m2 g k w" if "(g, k) \<in> set scored_keys" for g k w
    using assms that unfolding agree_on_scored_def by (intro weighted_agree) auto
  show ?thesis
    unfolding calculate_overall_score_def voice_score_def facial_score_def teaching_score_def
    by (simp add: w scored_keys_def)
qed

text \<open>
  C9. The score and the tier are functions of the snapshot alone: two identical snapshots
  get the same overall score and the same eligibility tier (or the same exception). The
  same holds already for two snapshots that agree on the eight metrics of the formula,
  whatever else they hold.
\<close>

theorem scoring_deterministic:
  assumes "m1 = m2 \<or> agree_on_scored m1 m2"
  shows "calculate_overall_score m1 = calculate_overall_score m2
         \<and> score_and_tier m1 = score_and_tier m2"
  using assms score_agree by (auto simp: score_and_tier_def)

theorem scoring_deterministic_witness:
  "score_and_tier sample_snapshot = score_and_tier sample_snapshot
   \<and> score_and_tier
       (sample_snapshot(''voice_metrics'' \<mapsto> sample_voice(''volume'' \<mapsto> Num 99)))
     = score_and_tier sample_snapshot"
proof -
  have "agree_on_scored
          (sample_snapshot(''voice_metrics'' \<mapsto> sample_voice(''volume'' \<mapsto> Num 99)))
          sample_snapshot"
    by (simp add: agree_on_scored_def scored_keys_def lookup2_def sample_snapshot_def)
  then show ?thesis
    using scoring_deterministic
        [of "sample_snapshot(''voice_metrics'' \<mapsto> sample_voice(''volume'' \<mapsto> Num 99))"
          sample_snapshot]
      scoring_deterministic [of sample_snapshot sample_snapshot]
    by simp
qed

subsection \<open>The final report\<close>

lemma final_report_body_error:
  assumes "fetch aid = Inr [] \<or> (\<exists>e. fetch aid = Inl e)"
  shows "\<exists>e. final_report_body fetch aid = Inl e"
  using assms by (auto simp: final_report_body_def)

text \<open>
  C10. Whenever generating the report raises (the database fails, the session has no stored
  data points, or any later step raises), \<^verbatim>\<open>generate_final_report\<close> returns the fixed
  fallback result: score 75.0, tier needs-improvement, the single recommendation
  ``Continue Practice'' and an empty detailed analysis.
\<close>

theorem final_report_fallback:
  assumes "fetch aid = Inr [] \<or> (\<exists>e. fetch aid = Inl e)
           \<or> (\<exists>e. final_report_body fetch aid = Inl e)"
  shows "generate_final_report fetch aid =
           \<lparr>assessment_id = aid, overall_score = 75, eligibility = ''needs-improvement'',
            recommendations =
              [\<lparr>category = ''general'', priority = ''medium'', title = ''Continue Practice'',
                description = ''Keep practicing teaching techniques''\<rparr>],
            detailed_analysis = Map.empty\<rparr>"
proof -
  from assms final_report_body_error [of fetch aid]
  obtain e where "final_report_body fetch aid = Inl e" by blast
  then show ?thesis
    by (simp add: generate_final_report_def get_fallback_result_def)
qed

theorem final_report_fallback_witness:
  "select_assessment_data [] ''S1'' = Inr []
   \<and> generate_final_report (select_assessment_data []) ''S1'' =
       \<lparr>assessment_id = ''S1'', overall_score = 75, eligibility = ''needs-improvement'',
        recommendations =
          [\<lparr>category = ''general'', priority = ''medium'', title = ''Continue Practice'',
            description = ''Keep practicing teaching techniques''\<rparr>],
        detailed_analysis = Map.empty\<rparr>"
  using final_report_fallback [of "select_assessment_data []" "''S1''"]
  by (simp add: select_assessment_data_def)

subsection \<open>Aggregation\<close>

lemma aggregate_metrics_constant: "aggregate_metrics data_points = aggregate_metrics []"
  by (simp add: aggregate_metrics_def)

lemma score_of_aggregate: "calculate_overall_score (aggregate_metrics data_points) = Inr (382 / 5)"
proof -
  have "calculate_overall_score (aggregate_metrics []) = Inr (382 / 5)"
    by code_simp
  then show ?thesis
    by (simp add: aggregate_metrics_constant [of data_points])
qed

lemma numeric_aggregate: "numeric_snapshot (aggregate_metrics data_points)"
  by (auto simp: numeric_snapshot_def numeric_metrics_def aggregate_metrics_def split: if_splits)

lemma recommendations_of_aggregate:
  "generate_recommendations (aggregate_metrics data_points) = Inr [increase_student_interaction]"
  unfolding generate_recommendations_numeric [OF numeric_aggregate]
  by (simp add: rule_table_def lookup2_def aggregate_metrics_def)

lemma final_report_of_rows:
  assumes "fetch aid = Inr (r # rs)"
  shows "generate_final_report fetch aid =
           \<lparr>assessment_id = aid, overall_score = 382 / 5, eligibility = ''needs-improvement'',
            recommendations = [increase_student_interaction],
            detailed_analysis = aggregate_metrics (r # rs)\<rparr>"
  using assms
  by (simp add: generate_final_report_def final_report_body_def score_of_aggregate
      recommendations_of_aggregate determine_eligibility_def Let_def)

text \<open>
  C2. The aggregation does not depend on the stored samples. After the scenario's sample
  (voice confidence 60) is stored for session S1, the aggregated snapshot holds confidence
  75 and the report's score is 76.4, the score of the fixed dictionaries, where the mean of
  the one sample is 60.
\<close>

theorem aggregate_metrics_placeholder:
  "data_voice_metrics sample_data ''confidence'' = Some (Num 60)
   \<and> lookup2 (aggregate_metrics (save_assessment_data [] sample_data))
       ''voice_metrics'' ''confidence'' = Some (Num 75)
   \<and> overall_score
       (generate_final_report (select_assessment_data (save_assessment_data [] sample_data)) ''S1'')
     = 382 / 5"
proof -
  have "select_assessment_data (save_assessment_data [] sample_data) ''S1''
          = Inr (save_assessment_data [] sample_data)"
    by (simp add: select_assessment_data_def save_assessment_data_def sample_data_def)
  then have "overall_score
       (generate_final_report (select_assessment_data (save_assessment_data [] sample_data)) ''S1'')
     = 382 / 5"
    by (simp add: final_report_of_rows save_assessment_data_def)
  then show ?thesis
    by (simp add: sample_data_def sample_voice_def lookup2_def aggregate_metrics_def)
qed

subsection \<open>Teaching metrics\<close>

lemma as_number_get_default:
  assumes "numeric_metrics d" and "k \<noteq> ''emotion''"
  shows "as_number (get_default d k (Num dflt)) = Inr (number_or d k dflt)"
proof (cases "d k")
  case None
  then show ?thesis by (simp add: get_default_def number_or_def)
next
  case (Some v)
  with assms obtain x where "v = Num x" unfolding numeric_metrics_def by blast
  with Some show ?thesis by (simp add: get_default_def number_or_def)
qed

lemma calculate_teaching_metrics_numeric:
  assumes "numeric_metrics voice" and "numeric_metrics facial"
  shows "calculate_teaching_metrics voice facial =
           Inr [''interaction_level'' \<mapsto>
                  Num (py_round1 (min 100
                    ((number_or voice ''confidence'' 50 + number_or facial ''engagement'' 50) / 2))),
                ''example_usage'' \<mapsto>
                  Num (py_round1 (min 100 (number_or voice ''clarity'' 50 + 20))),
                ''student_engagement'' \<mapsto>
                  Num (py_round1 (min 100 (number_or facial ''engagement'' 50 + 15)))]"
  using assms
  by (simp add: calculate_teaching_metrics_def py_add_def as_number_get_default Let_def)



lemma numeric_sample_voice: "numeric_metrics sample_voice"
  by (auto simp: numeric_metrics_def sample_voice_def split: if_splits)

lemma numeric_sample_facial: "numeric_metrics sample_facial"
  by (auto simp: numeric_metrics_def sample_facial_def split: if_splits)


text \<open>
  On the scenario's sample the engagement reading is 50: the code reads the key
  \<^verbatim>\<open>engagement\<close>, which the sample (like the dictionaries of \<^verbatim>\<open>FacialAnalyzer\<close>) does
  not hold, its engagement being stored under \<^verbatim>\<open>engagement_level\<close>.
\<close>

lemma teaching_metrics_of_sample:
  "calculate_teaching_metrics sample_voice sample_facial =
     Inr [''interaction_level'' \<mapsto> Num 55, ''example_usage'' \<mapsto> Num 85,
          ''student_engagement'' \<mapsto> Num 65]"
proof -
  have "py_round1 55 = 55" "py_round1 85 = 85" "py_round1 65 = 65"
    by code_simp+
  then show ?thesis
    unfolding calculate_teaching_metrics_numeric [OF numeric_sample_voice numeric_sample_facial]
    by (simp add: number_or_def sample_voice_def sample_facial_def)
qed

subsection \<open>ConnectionManager\<close>

text \<open>
  C8. When no connection is registered for a session id, sending to that session raises
  nothing, calls the transport not at all and leaves the manager and the transport as they
  were.
\<close>

theorem publish_without_subscriber:
  assumes "assessment_connections mgr aid = None"
  shows "send_to_assessment send_text aid message (mgr, net) = Inr (mgr, net)"
  using assms by (simp add: send_to_assessment_def)

theorem publish_without_subscriber_witness:
  "send_to_assessment log_send_text ''S1'' ''update'' (new_manager, []) = Inr (new_manager, [])"
  using publish_without_subscriber [of new_manager "''S1''" log_send_text "''update''" "[]"]
  by (simp add: new_manager_def)

lemma disconnect_unregisters:
  "aid \<noteq> [] \<Longrightarrow> assessment_connections (disconnect ws (Some aid) mgr) aid = None"
  by (simp add: disconnect_def Let_def)






end
